theory Spec2Isabelle
  imports Main "HOL-Library.Sublist"
begin

section \<open>JavaScript values the avatar code works on\<close>

text \<open>
  A JavaScript string is modelled by the list of its UTF-8 bytes (\<open>string\<close>). The
  operations used by the source (\<open>includes\<close>, \<open>replace\<close> with a string pattern,
  template literals, \<open>encodeURIComponent\<close>) agree with their byte-wise versions on every
  well-formed Unicode string. A nullable column or an environment variable is a
  \<open>string option\<close>, \<open>None\<close> standing for \<open>null\<close>/\<open>undefined\<close>.
\<close>

text \<open>The value an \<open>if (x)\<close> or \<open>x && ...\<close> test lets through: \<open>null\<close>, \<open>undefined\<close>
  and the empty string are falsy.\<close>

fun truthy :: "string option \<Rightarrow> string option" where
  "truthy None = None"
| "truthy (Some s) = (if s = [] then None else Some s)"

text \<open>\<open>a || b\<close> for a nullable string \<open>a\<close> and a string \<open>b\<close>.\<close>

definition or_else :: "string option \<Rightarrow> string \<Rightarrow> string" where
  "or_else a b = (case truthy a of Some s \<Rightarrow> s | None \<Rightarrow> b)"

text \<open>\<open>`${x}`\<close>: interpolation of a possibly undefined value.\<close>

fun interp :: "string option \<Rightarrow> string" where
  "interp None = ''undefined''"
| "interp (Some s) = s"

text \<open>\<open>s.includes(pat)\<close>: \<open>pat\<close> occurs somewhere in \<open>s\<close>.\<close>

fun includes_str :: "string \<Rightarrow> string \<Rightarrow> bool" where
  "includes_str [] pat = (pat = [])"
| "includes_str (c # cs) pat = (prefix pat (c # cs) \<or> includes_str cs pat)"

text \<open>\<open>s.replace(pat, rep)\<close> with a string pattern: only the first occurrence of
  \<open>pat\<close> is replaced. The source only ever passes the empty replacement, so the
  \<open>$\<close>-patterns of replacement strings play no role.\<close>

fun replace :: "string \<Rightarrow> string \<Rightarrow> string \<Rightarrow> string" where
  "replace [] pat rep = (if pat = [] then rep else [])"
| "replace (c # cs) pat rep =
     (if prefix pat (c # cs) then rep @ drop (length pat) (c # cs)
      else c # replace cs pat rep)"

text \<open>\<open>encodeURIComponent\<close>: letters, digits and \<open>- _ . ! ~ * ' ( )\<close> are kept, every
  other byte of the UTF-8 encoding becomes \<open>%XX\<close> with upper-case hexadecimal digits.\<close>

definition isUnreserved :: "char \<Rightarrow> bool" where
  "isUnreserved c =
     (let n = (of_char c :: nat) in
        (65 \<le> n \<and> n \<le> 90) \<or> (97 \<le> n \<and> n \<le> 122) \<or> (48 \<le> n \<and> n \<le> 57) \<or>
        n = 45 \<or> n = 95 \<or> n = 46 \<or> n = 33 \<or> n = 126 \<or> n = 42 \<or> n = 39 \<or> n = 40 \<or> n = 41)"

definition hexDigit :: "nat \<Rightarrow> char" where
  "hexDigit n = ''0123456789ABCDEF'' ! (n mod 16)"

definition encodeByte :: "char \<Rightarrow> string" where
  "encodeByte c =
     (if isUnreserved c then [c]
      else [CHR ''%'', hexDigit (of_char c div 16), hexDigit (of_char c mod 16)])"

definition encodeURIComponent :: "string \<Rightarrow> string" where
  "encodeURIComponent s = concat (map encodeByte s)"

section \<open>Configuration and the user record\<close>

text \<open>\<open>process.env\<close>: each variable may be unset.\<close>

record env =
  R2_BUCKET_NAME :: "string option"
  R2_PUBLIC_URL :: "string option"
  OLD_R2_PUBLIC_URL :: "string option"

text \<open>The columns of \<open>models/User.js\<close> that the avatar code reads or writes. \<open>email\<close>
  is \<open>allowNull: false\<close>; \<open>name\<close>, \<open>avatar_key\<close> and \<open>avatar_url\<close> are nullable.\<close>

record user =
  uid :: nat
  email :: string
  name :: "string option"
  avatar_key :: "string option"
  avatar_url :: "string option"

section \<open>The file storage service\<close>

text \<open>
  \<open>services/FileStorageService.js\<close> is required by \<open>models/User.js\<close> but is not among
  the sources. Its two pure functions are parameters of the model; its \<open>deleteFile\<close> is
  an external call (see the cleanup hook below).
\<close>

record fileStorageService =
  constructUrl :: "string \<Rightarrow> string"
  defaultAvatarOf :: "string \<Rightarrow> string"

section \<open>\<open>AvatarService.getDefaultAvatar\<close>\<close>

text \<open>The argument is \<open>None\<close> when the caller passes \<open>undefined\<close> (or nothing): the
  default parameter \<open>'User'\<close> applies.\<close>

definition getDefaultAvatar :: "string option \<Rightarrow> string" where
  "getDefaultAvatar name_arg =
     ''https://ui-avatars.com/api/?name=''
       @ encodeURIComponent (case name_arg of None \<Rightarrow> ''User'' | Some n \<Rightarrow> n)
       @ ''&background=random&size=400''"

text \<open>
  Modelled from the spec: \<open>FileStorageService\<close> (absent from the sources). Section 4.4
  and the example of section 8 make \<open>constructUrl\<close> join the public base URL and the
  key with a slash, as \<open>AvatarService.uploadAvatar\<close> does; tier 3 of section 4.4 is
  rendered by the \<open>getDefaultAvatar\<close> of \<open>AvatarService\<close>, which the sources have.
\<close>

definition specFileStorageService :: "env \<Rightarrow> fileStorageService" where
  "specFileStorageService e =
     \<lparr> constructUrl = (\<lambda>key. interp (R2_PUBLIC_URL e) @ ''/'' @ key),
       defaultAvatarOf = (\<lambda>n. getDefaultAvatar (Some n)) \<rparr>"

section \<open>\<open>User.prototype.getAvatarUrl\<close>\<close>

definition getAvatarUrl :: "fileStorageService \<Rightarrow> env \<Rightarrow> user \<Rightarrow> string" where
  "getAvatarUrl fss e this =
     (case truthy (avatar_key this) of
        Some key \<Rightarrow> constructUrl fss key
      | None \<Rightarrow>
          (case truthy (avatar_url this) of
             Some url \<Rightarrow>
               (case truthy (OLD_R2_PUBLIC_URL e) of
                  Some oldR2Domain \<Rightarrow>
                    if includes_str url oldR2Domain
                    then constructUrl fss (replace url (oldR2Domain @ ''/'') [])
                    else url
                | None \<Rightarrow> url)
           | None \<Rightarrow> defaultAvatarOf fss (or_else (name this) (email this))))"

section \<open>The outside world: storage calls, the database, and their outcomes\<close>

text \<open>Errors are values. \<open>Error msg\<close> is \<open>new Error(msg)\<close>; the others stand for what a
  collaborator throws: a property access on \<open>null\<close>, a rejected database query, a
  rejected storage call.\<close>

datatype error = Error string | TypeError | DatabaseError | StorageError

type_synonym buffer = "nat list"

text \<open>A call that leaves the process towards the object store: the two S3 commands that
  \<open>AvatarService\<close> sends (bucket, key, and for a put the body, content type, cache
  control and metadata), and \<open>fileStorageService.deleteFile(key)\<close>.\<close>

datatype call =
    PutObjectCommand "string option" string buffer string string "(string \<times> string) list"
  | DeleteObjectCommand "string option" string
  | DeleteFile string

text \<open>A row of the \<open>File\<close> model, as the cleanup hook reads it.\<close>

record fileRow =
  file_key :: string
  uploaded_by :: nat

text \<open>The state the code acts on: the \<open>Users\<close> table by primary key, the \<open>File\<close> table,
  and the storage calls issued so far, oldest first.\<close>

record world =
  users :: "nat \<Rightarrow> user option"
  files :: "fileRow list"
  calls :: "call list"

text \<open>What the collaborators answer. \<open>sharp\<close> yields the processed image, or \<open>None\<close>
  when it rejects (the payload cannot be decoded); \<open>accepted n c\<close> says whether the
  storage call \<open>c\<close>, issued after \<open>n\<close> earlier ones, resolves; the three flags say
  whether the database queries resolve. \<open>findAll_ok = False\<close> also covers a \<open>File\<close>
  model that \<open>require('./index')\<close> does not provide (the \<open>models/index.js\<close> of the sources
  registers \<open>User\<close>, \<open>Session\<close> and \<open>TokenBlacklist\<close> only): \<open>File.findAll\<close> then throws
  inside the hook's second \<open>try\<close>.\<close>

record outcomes =
  sharp :: "buffer \<Rightarrow> buffer option"
  randomBytesHex :: string
  now :: nat
  nowISO :: string
  accepted :: "nat \<Rightarrow> call \<Rightarrow> bool"
  findAll_ok :: bool
  findByPk_ok :: bool
  save_ok :: bool

text \<open>Issuing a storage call: it is recorded whether or not it resolves.\<close>

definition send :: "outcomes \<Rightarrow> call \<Rightarrow> world \<Rightarrow> (error + unit) \<times> world" where
  "send out c w =
     (if accepted out (length (calls w)) c then Inr () else Inl StorageError,
      w\<lparr>calls := calls w @ [c]\<rparr>)"

text \<open>Modelled from the spec: \<open>FileStorageService.deleteFile\<close> (absent from the sources).
  Section 6 gives the object store a \<open>delete(key)\<close> that succeeds or fails; the hook
  awaits the call and attaches \<open>.catch\<close> to it, so it returns a promise, which resolves
  or rejects.\<close>

definition deleteFile :: "outcomes \<Rightarrow> string \<Rightarrow> world \<Rightarrow> (error + unit) \<times> world" where
  "deleteFile out key w = send out (DeleteFile key) w"

definition findByPk :: "outcomes \<Rightarrow> nat \<Rightarrow> world \<Rightarrow> error + user option" where
  "findByPk out pk w = (if findByPk_ok out then Inr (users w pk) else Inl DatabaseError)"

definition save :: "outcomes \<Rightarrow> user \<Rightarrow> world \<Rightarrow> (error + unit) \<times> world" where
  "save out u w =
     (if save_ok out then (Inr (), w\<lparr>users := (users w)(uid u \<mapsto> u)\<rparr>)
      else (Inl DatabaseError, w))"

definition findAll :: "outcomes \<Rightarrow> nat \<Rightarrow> world \<Rightarrow> error + fileRow list" where
  "findAll out owner w =
     (if findAll_ok out then Inr (filter (\<lambda>f. uploaded_by f = owner) (files w))
      else Inl DatabaseError)"

text \<open>Decimal rendering of a number inside a template literal.\<close>

fun decimal :: "nat \<Rightarrow> string" where
  "decimal n =
     (if n < 10 then [''0123456789'' ! n]
      else decimal (n div 10) @ [''0123456789'' ! (n mod 10)])"

declare decimal.simps [simp del]

section \<open>\<open>AvatarService\<close>\<close>

text \<open>\<open>uploadAvatar(fileBuffer, userId)\<close>. The whole body is one \<open>try\<close>; its \<open>catch\<close>
  throws \<open>new Error('Failed to upload avatar')\<close> whatever was caught.\<close>

definition AvatarService_uploadAvatar ::
  "env \<Rightarrow> outcomes \<Rightarrow> buffer \<Rightarrow> nat \<Rightarrow> world \<Rightarrow> (error + string) \<times> world" where
  "AvatarService_uploadAvatar e out fileBuffer userId w =
     (case sharp out fileBuffer of
        None \<Rightarrow> (Inl (Error ''Failed to upload avatar''), w)
      | Some processedImage \<Rightarrow>
          (let hash = randomBytesHex out;
               timestamp = now out;
               filename = ''avatars/'' @ decimal userId @ ''/'' @ decimal timestamp
                            @ ''-'' @ hash @ ''.jpg'';
               command = PutObjectCommand (R2_BUCKET_NAME e) filename processedImage
                           ''image/jpeg'' ''public, max-age=31536000''
                           [(''userId'', decimal userId), (''uploadedAt'', nowISO out)]
           in case send out command w of
                (Inr _, w') \<Rightarrow> (Inr (interp (R2_PUBLIC_URL e) @ ''/'' @ filename), w')
              | (Inl err, w') \<Rightarrow> (Inl (Error ''Failed to upload avatar''), w')))"

text \<open>\<open>deleteAvatar(avatarUrl)\<close>. The \<open>catch\<close> returns \<open>false\<close>.\<close>

definition AvatarService_deleteAvatar ::
  "env \<Rightarrow> outcomes \<Rightarrow> string option \<Rightarrow> world \<Rightarrow> bool \<times> world" where
  "AvatarService_deleteAvatar e out avatarUrl w =
     (case truthy avatarUrl of
        None \<Rightarrow> (False, w)
      | Some url \<Rightarrow>
          if \<not> includes_str url (interp (R2_PUBLIC_URL e)) then (False, w)
          else
            (let key = replace url (interp (R2_PUBLIC_URL e) @ ''/'') []
             in case send out (DeleteObjectCommand (R2_BUCKET_NAME e) key) w of
                  (Inr _, w') \<Rightarrow> (True, w')
                | (Inl err, w') \<Rightarrow> (False, w')))"

text \<open>\<open>validateImage(file)\<close> on a Multer file object.\<close>

record multerFile =
  file_size :: nat
  mimetype :: string
  path :: "string option"

record validation =
  valid :: bool
  errors :: "string list"

definition allowedTypes :: "string list" where
  "allowedTypes = [''image/jpeg'', ''image/png'', ''image/jpg'']"

definition validateImage :: "multerFile \<Rightarrow> validation" where
  "validateImage file =
     (let errors1 = (if file_size file > 5 * 1024 * 1024
                     then [''File size exceeds 5MB limit''] else []);
          errors2 = errors1 @ (if mimetype file \<notin> set allowedTypes
                               then [''Invalid file type. Only JPEG and PNG are allowed'']
                               else [])
      in \<lparr> valid = (length errors2 = 0), errors = errors2 \<rparr>)"

section \<open>\<open>ProfileController\<close>: the avatar handlers\<close>

text \<open>The request carries the authenticated user's id and the uploaded file, if any. A
  handler either answers with a status, a message and an \<open>avatar_url\<close> field, or passes
  the error it caught to \<open>next\<close>.\<close>

record request =
  req_user_id :: nat
  req_file :: "multerFile option"

datatype response = Json nat string "string option" | Next error


text \<open>\<open>deleteAvatar\<close> assigns \<open>null\<close>, which \<open>save\<close> does write.\<close>

definition ProfileController_deleteAvatar ::
  "fileStorageService \<Rightarrow> env \<Rightarrow> outcomes \<Rightarrow> request \<Rightarrow> world \<Rightarrow> response \<times> world" where
  "ProfileController_deleteAvatar fss e out req w =
     (case findByPk out (req_user_id req) w of
        Inl err \<Rightarrow> (Next err, w)
      | Inr None \<Rightarrow> (Next TypeError, w)
      | Inr (Some usr) \<Rightarrow>
          (let usr' = usr\<lparr>avatar_url := None\<rparr> in
           case save out usr' w of
             (Inl err, w') \<Rightarrow> (Next err, w')
           | (Inr _, w') \<Rightarrow>
               (Json 200 ''Avatar removed successfully'' (Some (getAvatarUrl fss e usr')), w')))"

section \<open>The \<open>beforeDestroy\<close> hook of \<open>User\<close>\<close>

text \<open>The \<open>map\<close> over the user's files: every \<open>deleteFile\<close> call is issued, and the
  \<open>.catch\<close> attached to each one turns a rejection into a resolved promise.\<close>

fun deleteEach :: "outcomes \<Rightarrow> fileRow list \<Rightarrow> world \<Rightarrow> world" where
  "deleteEach out [] w = w"
| "deleteEach out (f # fs) w =
     (case deleteFile out (file_key f) w of
        (Inr _, w') \<Rightarrow> deleteEach out fs w'
      | (Inl err, w') \<Rightarrow> deleteEach out fs w')"

text \<open>The hook: the avatar first, inside its own \<open>try\<close>; then the lookup of the user's
  files and their deletion inside a second \<open>try\<close>. Both \<open>catch\<close> blocks only log.\<close>

definition beforeDestroy :: "outcomes \<Rightarrow> user \<Rightarrow> world \<Rightarrow> (error + unit) \<times> world" where
  "beforeDestroy out usr w =
     (let w1 = (case truthy (avatar_key usr) of
                  Some key \<Rightarrow>
                    (case deleteFile out key w of
                       (Inr _, w') \<Rightarrow> w'
                     | (Inl err, w') \<Rightarrow> w')
                | None \<Rightarrow> w)
      in case findAll out (uid usr) w1 of
           Inl err \<Rightarrow> (Inr (), w1)
         | Inr userFiles \<Rightarrow>
             (Inr (), if length userFiles > 0 then deleteEach out userFiles w1 else w1))"

section \<open>Example data\<close>

text \<open>The configuration of the example in section 8 of the specification, and a user
  without any avatar data.\<close>

definition exampleEnv :: env where
  "exampleEnv =
     \<lparr> R2_BUCKET_NAME = Some ''protected'',
       R2_PUBLIC_URL = Some ''https://current.example'',
       OLD_R2_PUBLIC_URL = Some ''https://old.example/files'' \<rparr>"

definition ann :: user where
  "ann = \<lparr> uid = 9, email = ''ann@example.org'', name = Some ''Ann Lee'',
           avatar_key = None, avatar_url = None \<rparr>"

text \<open>Collaborators that all answer: the image is processed, every storage call and
  every query resolves.\<close>

definition allResolve :: outcomes where
  "allResolve =
     \<lparr> sharp = (\<lambda>b. Some [255, 216, 255, 217]),
       randomBytesHex = ''000102030405060708090a0b0c0d0e0f'',
       now = 1700000000000,
       nowISO = ''2023-11-14T22:13:20.000Z'',
       accepted = (\<lambda>n c. True),
       findAll_ok = True, findByPk_ok = True, save_ok = True \<rparr>"

text \<open>A database in which user 9 has both a key and a legacy URL and owns three of the
  four files; no storage call has been issued yet.\<close>

definition annWorld :: world where
  "annWorld =
     \<lparr> users = [9 \<mapsto> ann\<lparr>avatar_key := Some ''avatars/9/a.jpg'',
                           avatar_url := Some ''https://old.example/files/u9.png''\<rparr>],
       files = [\<lparr>file_key = ''docs/9/cv.pdf'', uploaded_by = 9\<rparr>,
                \<lparr>file_key = ''docs/4/plan.pdf'', uploaded_by = 4\<rparr>,
                \<lparr>file_key = ''docs/9/id.png'', uploaded_by = 9\<rparr>,
                \<lparr>file_key = ''docs/9/notes.txt'', uploaded_by = 9\<rparr>],
       calls = [] \<rparr>"

section \<open>Facts about the string operations\<close>

lemma replace_prefix: "replace (p @ rest) p [] = rest"
proof (cases "p @ rest")
  case Nil
  then show ?thesis by simp
next
  case (Cons a list)
  then have "prefix p (a # list)"
    by (metis prefixI)
  then have "replace (a # list) p [] = drop (length p) (a # list)"
    by simp
  also have "\<dots> = rest"
    by (simp add: Cons [symmetric])
  finally show ?thesis
    by (simp add: Cons)
qed

lemma includes_str_prefix: "includes_str (p @ rest) p"
proof (cases "p @ rest")
  case Nil
  then show ?thesis by simp
next
  case (Cons a list)
  then have "prefix p (a # list)"
    by (metis prefixI)
  then show ?thesis
    by (simp add: Cons)
qed

lemma append_slash_neq: "p @ ''/'' @ k \<noteq> k"
proof
  assume "p @ ''/'' @ k = k"
  then have "length (p @ ''/'' @ k) = length k" by simp
  then show False by simp
qed

section \<open>Facts about the storage calls\<close>

lemma deleteEach_calls:
  "deleteEach out fs w = w\<lparr>calls := calls w @ map (\<lambda>f. DeleteFile (file_key f)) fs\<rparr>"
proof (induction fs arbitrary: w)
  case Nil
  show ?case by simp
next
  case (Cons f fs)
  show ?case
    by (simp add: Cons.IH deleteFile_def send_def)
qed

lemma uploadAvatar_example:
  "AvatarService_uploadAvatar exampleEnv allResolve buf 9 annWorld
     = (Inr ''https://current.example/avatars/9/1700000000000-000102030405060708090a0b0c0d0e0f.jpg'',
        annWorld\<lparr>calls := [PutObjectCommand (Some ''protected'')
            ''avatars/9/1700000000000-000102030405060708090a0b0c0d0e0f.jpg''
            [255, 216, 255, 217] ''image/jpeg'' ''public, max-age=31536000''
            [(''userId'', ''9''), (''uploadedAt'', ''2023-11-14T22:13:20.000Z'')]]\<rparr>)"
  by (simp add: AvatarService_uploadAvatar_def send_def Let_def allResolve_def exampleEnv_def
        annWorld_def decimal.simps)

section \<open>URL resolution\<close>

text \<open>
  C1, as the code has it. The first tier of \<open>getAvatarUrl\<close> is guarded by
  \<open>if (this.avatar_key)\<close>: for every user whose \<open>avatar_key\<close> is neither null nor the
  empty string, resolution returns what \<open>constructUrl\<close> of the file storage service
  builds from that key, whatever \<open>avatar_url\<close> holds.
\<close>

theorem getAvatarUrl_key_priority:
  "avatar_key u = Some k \<Longrightarrow> k \<noteq> [] \<Longrightarrow> getAvatarUrl fss e u = constructUrl fss k"
  by (simp add: getAvatarUrl_def)

text \<open>With the base URL \<open>https://current.example\<close>, the key \<open>avatars/9/a.jpg\<close> wins over
  a legacy URL that is also set.\<close>

theorem getAvatarUrl_key_priority_witness:
  "getAvatarUrl (specFileStorageService exampleEnv) exampleEnv
      (ann\<lparr>avatar_key := Some ''avatars/9/a.jpg'',
           avatar_url := Some ''https://cdn.example/me.png''\<rparr>)
     = ''https://current.example/avatars/9/a.jpg''"
  using getAvatarUrl_key_priority
    [of "ann\<lparr>avatar_key := Some ''avatars/9/a.jpg'',
              avatar_url := Some ''https://cdn.example/me.png''\<rparr>"
        "''avatars/9/a.jpg''" "specFileStorageService exampleEnv" exampleEnv]
  by (simp add: specFileStorageService_def exampleEnv_def)

text \<open>C1 as stated fails for a key that is non-null but empty: the empty string is
  falsy, so resolution falls through to the legacy URL instead of joining the base URL
  with the key.\<close>

theorem getAvatarUrl_empty_key_counterexample:
  "avatar_key (ann\<lparr>avatar_key := Some [], avatar_url := Some ''https://cdn.example/me.png''\<rparr>)
     \<noteq> None
   \<and> getAvatarUrl (specFileStorageService exampleEnv) exampleEnv
        (ann\<lparr>avatar_key := Some [], avatar_url := Some ''https://cdn.example/me.png''\<rparr>)
       = ''https://cdn.example/me.png''
   \<and> constructUrl (specFileStorageService exampleEnv) [] = ''https://current.example/''"
  by (simp add: getAvatarUrl_def specFileStorageService_def exampleEnv_def)

text \<open>
  C5, as the code has it. For every user with \<open>avatar_key\<close> null and a non-empty
  \<open>avatar_url\<close>: when a legacy domain is configured and \<open>avatar_url\<close> is that domain, a
  slash and a rest, resolution returns the URL that \<open>constructUrl\<close> builds from the
  rest; when no legacy domain is configured or \<open>avatar_url\<close> does not contain it,
  resolution returns \<open>avatar_url\<close> unchanged. Resolution is a function of the record and
  the configuration only: nothing is written back.
\<close>

theorem getAvatarUrl_legacy:
  assumes key: "avatar_key u = None"
    and url: "avatar_url u = Some url" "url \<noteq> []"
  shows "(OLD_R2_PUBLIC_URL e = Some old \<and> old \<noteq> [] \<and> url = old @ ''/'' @ rest
            \<longrightarrow> getAvatarUrl fss e u = constructUrl fss rest)
       \<and> ((\<forall>d. truthy (OLD_R2_PUBLIC_URL e) = Some d \<longrightarrow> \<not> includes_str url d)
            \<longrightarrow> getAvatarUrl fss e u = url)"
proof (intro conjI impI)
  assume a: "OLD_R2_PUBLIC_URL e = Some old \<and> old \<noteq> [] \<and> url = old @ ''/'' @ rest"
  then have inc: "includes_str url old"
    using includes_str_prefix [of old "''/'' @ rest"] by simp
  have "replace url (old @ ''/'') [] = rest"
    using a replace_prefix [of "old @ ''/''" rest] by simp
  with a inc key url show "getAvatarUrl fss e u = constructUrl fss rest"
    by (simp add: getAvatarUrl_def)
next
  assume "\<forall>d. truthy (OLD_R2_PUBLIC_URL e) = Some d \<longrightarrow> \<not> includes_str url d"
  with key url show "getAvatarUrl fss e u = url"
    by (simp add: getAvatarUrl_def split: option.splits)
qed

text \<open>The example of section 8: the stored value
  \<open>https://old.example/files/avatars/9/a.jpg\<close> resolves to
  \<open>https://current.example/avatars/9/a.jpg\<close>; a URL elsewhere is returned as it is.\<close>

theorem getAvatarUrl_legacy_witness:
  "getAvatarUrl (specFileStorageService exampleEnv) exampleEnv
      (ann\<lparr>avatar_url := Some ''https://old.example/files/avatars/9/a.jpg''\<rparr>)
     = ''https://current.example/avatars/9/a.jpg''
   \<and> getAvatarUrl (specFileStorageService exampleEnv) exampleEnv
      (ann\<lparr>avatar_url := Some ''https://cdn.example/me.png''\<rparr>)
     = ''https://cdn.example/me.png''"
proof -
  have 1: "avatar_key (ann\<lparr>avatar_url := Some ''https://old.example/files/avatars/9/a.jpg''\<rparr>) = None"
    and 2: "avatar_key (ann\<lparr>avatar_url := Some ''https://cdn.example/me.png''\<rparr>) = None"
    by (simp_all add: ann_def)
  have 3: "\<forall>d. truthy (OLD_R2_PUBLIC_URL exampleEnv) = Some d
             \<longrightarrow> \<not> includes_str ''https://cdn.example/me.png'' d"
    by (simp add: exampleEnv_def)
  from getAvatarUrl_legacy
         [OF 1, of "''https://old.example/files/avatars/9/a.jpg''" exampleEnv
            "''https://old.example/files''" "''avatars/9/a.jpg''"
            "specFileStorageService exampleEnv"]
       getAvatarUrl_legacy
         [OF 2, of "''https://cdn.example/me.png''" exampleEnv _ _
            "specFileStorageService exampleEnv"] 3
  show ?thesis
    by (simp add: exampleEnv_def specFileStorageService_def)
qed

text \<open>C5 as stated fails at two inputs. An \<open>avatar_url\<close> that is non-null but empty does
  not contain the legacy domain, yet it is not returned: resolution yields the default
  avatar. And an \<open>avatar_url\<close> that contains the legacy domain somewhere after its start
  is neither returned unchanged nor rebuilt from the path that follows the domain
  (\<open>x.jpg\<close>): only the domain and the slash are cut out of it.\<close>

theorem getAvatarUrl_legacy_counterexample:
  "avatar_key (ann\<lparr>avatar_url := Some []\<rparr>) = None
   \<and> avatar_url (ann\<lparr>avatar_url := Some []\<rparr>) \<noteq> None
   \<and> \<not> includes_str [] ''https://old.example/files''
   \<and> getAvatarUrl (specFileStorageService exampleEnv) exampleEnv (ann\<lparr>avatar_url := Some []\<rparr>)
       = ''https://ui-avatars.com/api/?name=Ann%20Lee&background=random&size=400''
   \<and> getAvatarUrl (specFileStorageService exampleEnv) exampleEnv
        (ann\<lparr>avatar_url := Some ''https://cdn.example/?ref=https://old.example/files/x.jpg''\<rparr>)
       = ''https://current.example/https://cdn.example/?ref=x.jpg''"
  by (simp add: getAvatarUrl_def specFileStorageService_def exampleEnv_def ann_def or_else_def
        getDefaultAvatar_def encodeURIComponent_def encodeByte_def isUnreserved_def hexDigit_def)

text \<open>
  C8. For every user with \<open>avatar_key\<close> and \<open>avatar_url\<close> both null, resolution returns
  the default-avatar URL whose \<open>name\<close> parameter is the URL-encoded display name, or the
  URL-encoded email when the name is null or empty. The default avatar of the file
  storage service is taken to be the \<open>getDefaultAvatar\<close> of \<open>AvatarService\<close>. No path of
  \<open>getAvatarUrl\<close> raises: the result is a string in every case.
\<close>

theorem getAvatarUrl_default:
  assumes "avatar_key u = None" and "avatar_url u = None"
    and "defaultAvatarOf fss = (\<lambda>n. getDefaultAvatar (Some n))"
  shows "getAvatarUrl fss e u =
           ''https://ui-avatars.com/api/?name=''
             @ encodeURIComponent
                 (case name u of None \<Rightarrow> email u | Some n \<Rightarrow> if n = [] then email u else n)
             @ ''&background=random&size=400''"
  using assms
  by (simp add: getAvatarUrl_def getDefaultAvatar_def or_else_def split: option.splits)

text \<open>A user named \<open>Ann Lee\<close>, and the same user without a name.\<close>

theorem getAvatarUrl_default_witness:
  "getAvatarUrl (specFileStorageService exampleEnv) exampleEnv ann
     = ''https://ui-avatars.com/api/?name=Ann%20Lee&background=random&size=400''
   \<and> getAvatarUrl (specFileStorageService exampleEnv) exampleEnv (ann\<lparr>name := None\<rparr>)
     = ''https://ui-avatars.com/api/?name=ann%40example.org&background=random&size=400''"
proof -
  have d: "defaultAvatarOf (specFileStorageService exampleEnv) = (\<lambda>n. getDefaultAvatar (Some n))"
    by (simp add: specFileStorageService_def)
  have "avatar_key ann = None" "avatar_url ann = None"
    "avatar_key (ann\<lparr>name := None\<rparr>) = None" "avatar_url (ann\<lparr>name := None\<rparr>) = None"
    by (simp_all add: ann_def)
  from getAvatarUrl_default [OF this(1,2) d, of exampleEnv]
       getAvatarUrl_default [OF this(3,4) d, of exampleEnv]
  show ?thesis
    by (simp add: ann_def encodeURIComponent_def encodeByte_def isUnreserved_def hexDigit_def)
qed

section \<open>The upload pipeline\<close>

text \<open>
  C3, as the code has it. For every successful run of \<open>AvatarService.uploadAvatar\<close>, the
  value returned is the public URL: the configured public base URL, a slash, and the
  generated key \<open>avatars/<userId>/<timestamp>-<hash>.jpg\<close> under which the processed
  image was put. That value is never the key itself. The run issues exactly one put and
  leaves the \<open>Users\<close> table as it was.
\<close>

theorem uploadAvatar_returns_public_url:
  assumes ok: "fst (AvatarService_uploadAvatar e out fileBuffer userId w) = Inr v"
    and key: "key = ''avatars/'' @ decimal userId @ ''/'' @ decimal (now out)
                     @ ''-'' @ randomBytesHex out @ ''.jpg''"
  shows "v = interp (R2_PUBLIC_URL e) @ ''/'' @ key \<and> v \<noteq> key
       \<and> (\<exists>img. calls (snd (AvatarService_uploadAvatar e out fileBuffer userId w))
                  = calls w @ [PutObjectCommand (R2_BUCKET_NAME e) key img ''image/jpeg''
                                 ''public, max-age=31536000''
                                 [(''userId'', decimal userId), (''uploadedAt'', nowISO out)]])
       \<and> users (snd (AvatarService_uploadAvatar e out fileBuffer userId w)) = users w"
proof (cases "sharp out fileBuffer")
  case None
  with ok show ?thesis
    by (simp add: AvatarService_uploadAvatar_def)
next
  case (Some img)
  with ok key have v: "v = interp (R2_PUBLIC_URL e) @ ''/'' @ key"
    by (simp add: AvatarService_uploadAvatar_def send_def Let_def split: if_splits)
  moreover from v have "v \<noteq> key"
    by (simp add: append_slash_neq)
  moreover from Some ok key
  have "calls (snd (AvatarService_uploadAvatar e out fileBuffer userId w))
          = calls w @ [PutObjectCommand (R2_BUCKET_NAME e) key img ''image/jpeg''
                         ''public, max-age=31536000''
                         [(''userId'', decimal userId), (''uploadedAt'', nowISO out)]]"
    by (simp add: AvatarService_uploadAvatar_def send_def Let_def split: if_splits)
  moreover from Some ok
  have "users (snd (AvatarService_uploadAvatar e out fileBuffer userId w)) = users w"
    by (simp add: AvatarService_uploadAvatar_def send_def Let_def split: if_splits)
  ultimately show ?thesis by blast
qed


text \<open>An upload for user 9 at time 1700000000000.\<close>

theorem uploadAvatar_returns_public_url_witness:
  "fst (AvatarService_uploadAvatar exampleEnv allResolve [137, 80, 78, 71] 9 annWorld)
     = Inr ''https://current.example/avatars/9/1700000000000-000102030405060708090a0b0c0d0e0f.jpg''
   \<and> users (snd (AvatarService_uploadAvatar exampleEnv allResolve [137, 80, 78, 71] 9 annWorld))
       = users annWorld"
proof -
  have r: "fst (AvatarService_uploadAvatar exampleEnv allResolve [137, 80, 78, 71] 9 annWorld)
     = Inr ''https://current.example/avatars/9/1700000000000-000102030405060708090a0b0c0d0e0f.jpg''"
    by (simp add: AvatarService_uploadAvatar_def send_def Let_def allResolve_def exampleEnv_def
          annWorld_def decimal.simps)
  from uploadAvatar_returns_public_url [OF r refl] r show ?thesis
    by simp
qed

text \<open>C3 as stated fails: the object is put under the key, the caller receives the URL.\<close>

theorem uploadAvatar_returns_key_counterexample:
  "AvatarService_uploadAvatar exampleEnv allResolve [137, 80, 78, 71] 9 annWorld
     = (Inr ''https://current.example/avatars/9/1700000000000-000102030405060708090a0b0c0d0e0f.jpg'',
        annWorld\<lparr>calls := [PutObjectCommand (Some ''protected'')
            ''avatars/9/1700000000000-000102030405060708090a0b0c0d0e0f.jpg''
            [255, 216, 255, 217] ''image/jpeg'' ''public, max-age=31536000''
            [(''userId'', ''9''), (''uploadedAt'', ''2023-11-14T22:13:20.000Z'')]]\<rparr>)
   \<and> ''https://current.example/avatars/9/1700000000000-000102030405060708090a0b0c0d0e0f.jpg''
       \<noteq> ''avatars/9/1700000000000-000102030405060708090a0b0c0d0e0f.jpg''"
  by (simp add: AvatarService_uploadAvatar_def send_def Let_def allResolve_def exampleEnv_def
        annWorld_def decimal.simps)

text \<open>
  C6, as the code has it. The size limit lives in \<open>validateImage\<close>, which
  \<open>uploadAvatar\<close> does not call: for every file whose declared size exceeds 5 MiB,
  \<open>validateImage\<close> reports the file as not valid, with \<open>File size exceeds 5MB limit\<close>
  as its first error. \<open>validateImage\<close> only computes a result; it issues no storage call.
\<close>

theorem validateImage_rejects_large:
  assumes "file_size f > 5 * 1024 * 1024"
  shows "\<not> valid (validateImage f)
       \<and> hd (errors (validateImage f)) = ''File size exceeds 5MB limit''"
  using assms by (simp add: validateImage_def Let_def)

text \<open>A PNG of 6 MiB is rejected for its size alone; one of exactly 5 MiB is accepted.\<close>

theorem validateImage_rejects_large_witness:
  "\<not> valid (validateImage \<lparr>file_size = 6291456, mimetype = ''image/png'', path = None\<rparr>)
   \<and> errors (validateImage \<lparr>file_size = 6291456, mimetype = ''image/png'', path = None\<rparr>)
       = [''File size exceeds 5MB limit'']
   \<and> valid (validateImage \<lparr>file_size = 5242880, mimetype = ''image/png'', path = None\<rparr>)"
  using validateImage_rejects_large
    [of "\<lparr>file_size = 6291456, mimetype = ''image/png'', path = None\<rparr>"]
  by (simp add: validateImage_def Let_def allowedTypes_def)

text \<open>C6 as stated fails: given a buffer of 6 MiB that \<open>sharp\<close> can process,
  \<open>uploadAvatar\<close> succeeds and the put is issued.\<close>

theorem uploadAvatar_large_counterexample:
  "length (replicate 6291456 (0::nat)) > 5 * 1024 * 1024
   \<and> AvatarService_uploadAvatar exampleEnv allResolve (replicate 6291456 0) 9 annWorld
     = (Inr ''https://current.example/avatars/9/1700000000000-000102030405060708090a0b0c0d0e0f.jpg'',
        annWorld\<lparr>calls := [PutObjectCommand (Some ''protected'')
            ''avatars/9/1700000000000-000102030405060708090a0b0c0d0e0f.jpg''
            [255, 216, 255, 217] ''image/jpeg'' ''public, max-age=31536000''
            [(''userId'', ''9''), (''uploadedAt'', ''2023-11-14T22:13:20.000Z'')]]\<rparr>)"
proof (rule conjI)
  show "length (replicate 6291456 (0::nat)) > 5 * 1024 * 1024"
    unfolding length_replicate by simp
  show "AvatarService_uploadAvatar exampleEnv allResolve (replicate 6291456 0) 9 annWorld
     = (Inr ''https://current.example/avatars/9/1700000000000-000102030405060708090a0b0c0d0e0f.jpg'',
        annWorld\<lparr>calls := [PutObjectCommand (Some ''protected'')
            ''avatars/9/1700000000000-000102030405060708090a0b0c0d0e0f.jpg''
            [255, 216, 255, 217] ''image/jpeg'' ''public, max-age=31536000''
            [(''userId'', ''9''), (''uploadedAt'', ''2023-11-14T22:13:20.000Z'')]]\<rparr>)"
    by (rule uploadAvatar_example)
qed

text \<open>
  C7, as the code has it. \<open>uploadAvatar\<close> has a single \<open>catch\<close> around all its steps:
  when \<open>sharp\<close> rejects the payload no put is issued and the caller gets
  \<open>Error('Failed to upload avatar')\<close>; when the put is rejected the caller gets the same
  error; and no other error ever reaches the caller.
\<close>

theorem uploadAvatar_one_failure:
  "(sharp out fileBuffer = None
      \<longrightarrow> AvatarService_uploadAvatar e out fileBuffer userId w
            = (Inl (Error ''Failed to upload avatar''), w))
   \<and> (\<forall>img. sharp out fileBuffer = Some img
         \<and> \<not> accepted out (length (calls w))
               (PutObjectCommand (R2_BUCKET_NAME e)
                  (''avatars/'' @ decimal userId @ ''/'' @ decimal (now out)
                     @ ''-'' @ randomBytesHex out @ ''.jpg'')
                  img ''image/jpeg'' ''public, max-age=31536000''
                  [(''userId'', decimal userId), (''uploadedAt'', nowISO out)])
      \<longrightarrow> fst (AvatarService_uploadAvatar e out fileBuffer userId w)
            = Inl (Error ''Failed to upload avatar''))
   \<and> (\<forall>err. fst (AvatarService_uploadAvatar e out fileBuffer userId w) = Inl err
      \<longrightarrow> err = Error ''Failed to upload avatar'')"
  by (simp add: AvatarService_uploadAvatar_def send_def Let_def split: option.splits)

text \<open>A payload that cannot be decoded, and a store that refuses every call.\<close>

theorem uploadAvatar_one_failure_witness:
  "fst (AvatarService_uploadAvatar exampleEnv (allResolve\<lparr>sharp := (\<lambda>b. None)\<rparr>)
          [1, 2, 3] 9 annWorld) = Inl (Error ''Failed to upload avatar'')
   \<and> fst (AvatarService_uploadAvatar exampleEnv (allResolve\<lparr>accepted := (\<lambda>n c. False)\<rparr>)
          [1, 2, 3] 9 annWorld) = Inl (Error ''Failed to upload avatar'')"
proof -
  have 1: "sharp (allResolve\<lparr>sharp := (\<lambda>b. None)\<rparr>) [1, 2, 3] = None"
    by simp
  have 2: "sharp (allResolve\<lparr>accepted := (\<lambda>n c. False)\<rparr>) [1, 2, 3] = Some [255, 216, 255, 217]"
    by (simp add: allResolve_def)
  have "fst (AvatarService_uploadAvatar exampleEnv (allResolve\<lparr>sharp := (\<lambda>b. None)\<rparr>)
          [1, 2, 3] 9 annWorld) = Inl (Error ''Failed to upload avatar'')"
    using uploadAvatar_one_failure
            [THEN conjunct1, of "allResolve\<lparr>sharp := (\<lambda>b. None)\<rparr>" "[1, 2, 3]"
               exampleEnv 9 annWorld] 1
    by simp
  moreover
  have "fst (AvatarService_uploadAvatar exampleEnv (allResolve\<lparr>accepted := (\<lambda>n c. False)\<rparr>)
          [1, 2, 3] 9 annWorld) = Inl (Error ''Failed to upload avatar'')"
    using uploadAvatar_one_failure
            [THEN conjunct2, THEN conjunct1, rule_format,
               of "allResolve\<lparr>accepted := (\<lambda>n c. False)\<rparr>" "[1, 2, 3]"
               "[255, 216, 255, 217]" annWorld exampleEnv 9] 2
    by simp
  ultimately show ?thesis
    by (rule conjI)
qed

text \<open>C7 as stated fails: the run in which only the transform fails and the run in which
  only the put fails hand the caller the same outcome.\<close>

theorem uploadAvatar_failures_counterexample:
  "sharp (allResolve\<lparr>sharp := (\<lambda>b. None)\<rparr>) [1, 2, 3] = None
   \<and> sharp (allResolve\<lparr>accepted := (\<lambda>n c. False)\<rparr>) [1, 2, 3] \<noteq> None
   \<and> fst (AvatarService_uploadAvatar exampleEnv (allResolve\<lparr>sharp := (\<lambda>b. None)\<rparr>)
          [1, 2, 3] 9 annWorld)
     = fst (AvatarService_uploadAvatar exampleEnv (allResolve\<lparr>accepted := (\<lambda>n c. False)\<rparr>)
          [1, 2, 3] 9 annWorld)"
  by (simp add: AvatarService_uploadAvatar_def send_def Let_def allResolve_def)

section \<open>Deleting a stored avatar\<close>

text \<open>
  C10. \<open>AvatarService.deleteAvatar\<close> returns a boolean on every input. For a null or
  empty URL, and for a URL that does not contain the public base URL, it returns
  \<open>false\<close> and issues no storage call. When it returns \<open>true\<close>, one delete command was
  issued and it resolved. When the delete command is rejected, it returns \<open>false\<close>.
\<close>

theorem deleteAvatar_never_throws:
  "((truthy avatarUrl = None
       \<or> (\<exists>url. avatarUrl = Some url \<and> \<not> includes_str url (interp (R2_PUBLIC_URL e))))
      \<longrightarrow> AvatarService_deleteAvatar e out avatarUrl w = (False, w))
   \<and> (fst (AvatarService_deleteAvatar e out avatarUrl w)
      \<longrightarrow> (\<exists>key. calls (snd (AvatarService_deleteAvatar e out avatarUrl w))
                    = calls w @ [DeleteObjectCommand (R2_BUCKET_NAME e) key]
               \<and> accepted out (length (calls w)) (DeleteObjectCommand (R2_BUCKET_NAME e) key)))
   \<and> (\<forall>url. truthy avatarUrl = Some url \<and> includes_str url (interp (R2_PUBLIC_URL e))
         \<and> \<not> accepted out (length (calls w))
               (DeleteObjectCommand (R2_BUCKET_NAME e)
                  (replace url (interp (R2_PUBLIC_URL e) @ ''/'') []))
      \<longrightarrow> AvatarService_deleteAvatar e out avatarUrl w
            = (False, w\<lparr>calls := calls w @
                 [DeleteObjectCommand (R2_BUCKET_NAME e)
                    (replace url (interp (R2_PUBLIC_URL e) @ ''/'') [])]\<rparr>))"
proof (intro conjI impI allI)
  assume "truthy avatarUrl = None
       \<or> (\<exists>url. avatarUrl = Some url \<and> \<not> includes_str url (interp (R2_PUBLIC_URL e)))"
  then show "AvatarService_deleteAvatar e out avatarUrl w = (False, w)"
    by (auto simp: AvatarService_deleteAvatar_def split: option.splits if_splits)
next
  assume t: "fst (AvatarService_deleteAvatar e out avatarUrl w)"
  show "\<exists>key. calls (snd (AvatarService_deleteAvatar e out avatarUrl w))
                    = calls w @ [DeleteObjectCommand (R2_BUCKET_NAME e) key]
               \<and> accepted out (length (calls w)) (DeleteObjectCommand (R2_BUCKET_NAME e) key)"
  proof (cases "truthy avatarUrl")
    case None
    with t show ?thesis
      by (simp add: AvatarService_deleteAvatar_def)
  next
    case (Some url)
    with t show ?thesis
      by (auto simp: AvatarService_deleteAvatar_def send_def Let_def split: if_splits)
  qed
next
  fix url
  assume "truthy avatarUrl = Some url \<and> includes_str url (interp (R2_PUBLIC_URL e))
         \<and> \<not> accepted out (length (calls w))
               (DeleteObjectCommand (R2_BUCKET_NAME e)
                  (replace url (interp (R2_PUBLIC_URL e) @ ''/'') []))"
  then show "AvatarService_deleteAvatar e out avatarUrl w
            = (False, w\<lparr>calls := calls w @
                 [DeleteObjectCommand (R2_BUCKET_NAME e)
                    (replace url (interp (R2_PUBLIC_URL e) @ ''/'') [])]\<rparr>)"
    by (simp add: AvatarService_deleteAvatar_def send_def Let_def)
qed

text \<open>No URL; a URL elsewhere; a URL of the store whose deletion is refused; and one whose
  deletion resolves.\<close>

theorem deleteAvatar_never_throws_witness:
  "AvatarService_deleteAvatar exampleEnv allResolve None annWorld = (False, annWorld)
   \<and> AvatarService_deleteAvatar exampleEnv allResolve (Some ''https://cdn.example/me.png'') annWorld
       = (False, annWorld)
   \<and> AvatarService_deleteAvatar exampleEnv (allResolve\<lparr>accepted := (\<lambda>n c. False)\<rparr>)
        (Some ''https://current.example/avatars/9/a.jpg'') annWorld
       = (False, annWorld\<lparr>calls := [DeleteObjectCommand (Some ''protected'') ''avatars/9/a.jpg'']\<rparr>)
   \<and> fst (AvatarService_deleteAvatar exampleEnv allResolve
        (Some ''https://current.example/avatars/9/a.jpg'') annWorld)"
proof -
  have a: "AvatarService_deleteAvatar exampleEnv allResolve None annWorld = (False, annWorld)"
    using deleteAvatar_never_throws [THEN conjunct1, of None exampleEnv allResolve annWorld]
    by simp
  have b: "AvatarService_deleteAvatar exampleEnv allResolve (Some ''https://cdn.example/me.png'')
             annWorld = (False, annWorld)"
    using deleteAvatar_never_throws
            [THEN conjunct1, of "Some ''https://cdn.example/me.png''" exampleEnv allResolve annWorld]
    by (simp add: exampleEnv_def)
  have c: "AvatarService_deleteAvatar exampleEnv (allResolve\<lparr>accepted := (\<lambda>n c. False)\<rparr>)
        (Some ''https://current.example/avatars/9/a.jpg'') annWorld
       = (False, annWorld\<lparr>calls := [DeleteObjectCommand (Some ''protected'') ''avatars/9/a.jpg'']\<rparr>)"
    using deleteAvatar_never_throws
            [THEN conjunct2, THEN conjunct2, rule_format,
               of "Some ''https://current.example/avatars/9/a.jpg''"
                  "''https://current.example/avatars/9/a.jpg''" exampleEnv
                  "allResolve\<lparr>accepted := (\<lambda>n c. False)\<rparr>" annWorld]
    by (simp add: exampleEnv_def annWorld_def)
  have d: "fst (AvatarService_deleteAvatar exampleEnv allResolve
        (Some ''https://current.example/avatars/9/a.jpg'') annWorld)"
    by (simp add: AvatarService_deleteAvatar_def send_def Let_def exampleEnv_def allResolve_def)
  from a b c d show ?thesis
    by simp
qed

section \<open>Cleanup before a user is destroyed\<close>

text \<open>
  C4, as the code has it. For every user, every set of files and every pattern of
  rejected storage calls, the \<open>beforeDestroy\<close> hook returns normally, so the destruction
  of the user record goes on, and it leaves the \<open>Users\<close> table alone. It issues one
  \<open>deleteFile\<close> call for the avatar key, if the user has a non-empty one, whichever way
  the lookup of the user's files ends. When that lookup answers, one call for each file
  the user uploaded follows, whichever of the calls are rejected; when the lookup itself
  fails, no call for a file is issued.
\<close>

theorem beforeDestroy_best_effort:
  "fst (beforeDestroy out usr w) = Inr ()
   \<and> users (snd (beforeDestroy out usr w)) = users w
   \<and> calls (snd (beforeDestroy out usr w))
       = calls w
         @ (case truthy (avatar_key usr) of Some key \<Rightarrow> [DeleteFile key] | None \<Rightarrow> [])
         @ (if findAll_ok out
            then map (\<lambda>f. DeleteFile (file_key f))
                   (filter (\<lambda>f. uploaded_by f = uid usr) (files w))
            else [])"
  by (simp add: beforeDestroy_def Let_def findAll_def deleteFile_def send_def deleteEach_calls
        split: option.splits)

text \<open>The example of section 8: an avatar and three owned files give four calls; the
  first and the third are rejected, and the hook still returns normally.\<close>

theorem beforeDestroy_best_effort_witness:
  "fst (beforeDestroy (allResolve\<lparr>accepted := (\<lambda>n c. n \<noteq> 0 \<and> n \<noteq> 2)\<rparr>)
          (ann\<lparr>avatar_key := Some ''avatars/9/a.jpg''\<rparr>) annWorld) = Inr ()
   \<and> calls (snd (beforeDestroy (allResolve\<lparr>accepted := (\<lambda>n c. n \<noteq> 0 \<and> n \<noteq> 2)\<rparr>)
          (ann\<lparr>avatar_key := Some ''avatars/9/a.jpg''\<rparr>) annWorld))
       = [DeleteFile ''avatars/9/a.jpg'', DeleteFile ''docs/9/cv.pdf'',
          DeleteFile ''docs/9/id.png'', DeleteFile ''docs/9/notes.txt'']"
  using beforeDestroy_best_effort
         [of "allResolve\<lparr>accepted := (\<lambda>n c. n \<noteq> 0 \<and> n \<noteq> 2)\<rparr>"
             "ann\<lparr>avatar_key := Some ''avatars/9/a.jpg''\<rparr>" annWorld]
  by (simp add: annWorld_def ann_def allResolve_def)

text \<open>C4 as stated fails when the lookup of the user's files fails: the user owns three
  files, and the only call issued is the one for the avatar. The hook still returns
  normally.\<close>

theorem beforeDestroy_lookup_fails_counterexample:
  "length (filter (\<lambda>f. uploaded_by f = 9) (files annWorld)) = 3
   \<and> beforeDestroy (allResolve\<lparr>findAll_ok := False\<rparr>)
        (ann\<lparr>avatar_key := Some ''avatars/9/a.jpg''\<rparr>) annWorld
       = (Inr (), annWorld\<lparr>calls := [DeleteFile ''avatars/9/a.jpg'']\<rparr>)"
  by (simp add: beforeDestroy_def Let_def findAll_def deleteFile_def send_def annWorld_def
        ann_def allResolve_def)

section \<open>The avatar handlers of the profile controller\<close>

text \<open>
  C2 does not hold of the code. \<open>ProfileController.deleteAvatar\<close> sets \<open>avatar_url\<close> to
  null and leaves \<open>avatar_key\<close> as it is. For a user with a key, the record keeps the key
  after the removal and the response carries the URL of that key, not the default avatar
  that the handler's own comment announces. No storage call is issued.
\<close>

theorem ProfileController_deleteAvatar_keeps_key:
  "fst (ProfileController_deleteAvatar (specFileStorageService exampleEnv) exampleEnv allResolve
          \<lparr>req_user_id = 9, req_file = None\<rparr> annWorld)
     = Json 200 ''Avatar removed successfully'' (Some ''https://current.example/avatars/9/a.jpg'')
   \<and> map_option avatar_key
        (users (snd (ProfileController_deleteAvatar (specFileStorageService exampleEnv) exampleEnv
                       allResolve \<lparr>req_user_id = 9, req_file = None\<rparr> annWorld)) 9)
       = Some (Some ''avatars/9/a.jpg'')
   \<and> calls (snd (ProfileController_deleteAvatar (specFileStorageService exampleEnv) exampleEnv
                       allResolve \<lparr>req_user_id = 9, req_file = None\<rparr> annWorld)) = []"
  by (simp add: ProfileController_deleteAvatar_def findByPk_def save_def Let_def allResolve_def
        annWorld_def ann_def getAvatarUrl_def specFileStorageService_def exampleEnv_def)


end
